theory Spec2Isabelle
  imports Main
begin

section \<open>Types and values of the reflection layer\<close>

text \<open>
  The container of \<^verbatim>\<open>container.go\<close> is driven by Go's \<^verbatim>\<open>reflect\<close> package. The embedding
  fixes a universe of types: three scalars, named struct types (given with their field
  list), pointers, named interface types, slices, maps, channels (with their direction)
  and function types (with the variadic flag). A struct field carries what
  \<^verbatim>\<open>reflect.StructField\<close> carries: its name, its package path (empty exactly for an
  exported field), its type, its tag (already split into key/value pairs) and whether it
  is embedded.
\<close>

type_synonym cid = nat
type_synonym addr = nat
type_synonym pid = nat
type_synonym fid = nat

datatype chandir = RecvDir | SendDir | BothDir

datatype rtype =
    TBool
  | TInt
  | TString
  | TStruct string "sfield list"
  | TPtr rtype
  | TInterface string
  | TSlice rtype
  | TMap rtype rtype
  | TChan chandir rtype
  | TFunc "rtype list" "rtype list" bool
and sfield =
    SField (fname: string) (pkgpath: string) (ftype: rtype)
           (ftag: "(string \<times> string) list") (anonymous: bool)

datatype kind =
    KInvalid | KBool | KInt | KString | KStruct | KPtr | KInterface
  | KSlice | KMap | KChan | KFunc

fun Kind :: "rtype \<Rightarrow> kind" where
  "Kind TBool = KBool"
| "Kind TInt = KInt"
| "Kind TString = KString"
| "Kind (TStruct n fs) = KStruct"
| "Kind (TPtr t) = KPtr"
| "Kind (TInterface n) = KInterface"
| "Kind (TSlice t) = KSlice"
| "Kind (TMap k v) = KMap"
| "Kind (TChan d t) = KChan"
| "Kind (TFunc ins outs var) = KFunc"

text \<open>
  A \<open>val\<close> is a value of a concrete (non-interface) type: what a non-nil
  \<^verbatim>\<open>interface{}\<close> holds. A \<open>stored\<close> is the content of a variable: of a concrete
  type, or of an interface type \<open>n\<close>, holding a concrete value or nothing (\<open>Boxed n None\<close>
  is the nil interface of type \<open>n\<close>). Pointers are addresses of heap cells (\<open>None\<close> is
  the nil pointer); a slice, a map and a channel are \<open>None\<close> when nil. The identity of
  maps and channels is not tracked.
\<close>

datatype val =
    VBool bool
  | VInt int
  | VString string
  | VStruct rtype "stored list"
  | VPtr rtype "addr option"
  | VSlice rtype "stored list option"
  | VMap rtype rtype "(stored \<times> stored) list option"
  | VChan chandir rtype "nat option"
  | VFunc "rtype list" "rtype list" bool "fid option"
and stored =
    Conc val
  | Boxed string "val option"

text \<open>\<^verbatim>\<open>reflect.TypeOf\<close> of a concrete value, and the static type of a variable.\<close>

fun typeOf :: "val \<Rightarrow> rtype" where
  "typeOf (VBool b) = TBool"
| "typeOf (VInt i) = TInt"
| "typeOf (VString s) = TString"
| "typeOf (VStruct t fs) = t"
| "typeOf (VPtr t p) = TPtr t"
| "typeOf (VSlice t xs) = TSlice t"
| "typeOf (VMap k v m) = TMap k v"
| "typeOf (VChan d t c) = TChan d t"
| "typeOf (VFunc ins outs var f) = TFunc ins outs var"

fun static_type :: "stored \<Rightarrow> rtype" where
  "static_type (Conc v) = typeOf v"
| "static_type (Boxed n d) = TInterface n"

text \<open>The dynamic value of a variable, as an \<^verbatim>\<open>interface{}\<close> (\<open>None\<close> is nil).\<close>

fun dyn :: "stored \<Rightarrow> val option" where
  "dyn (Conc v) = Some v"
| "dyn (Boxed n d) = d"

text \<open>The zero value of a type (what \<^verbatim>\<open>reflect.New(t)\<close> points to).\<close>

fun zero :: "rtype \<Rightarrow> stored"
and zero_fields :: "sfield list \<Rightarrow> stored list" where
  "zero TBool = Conc (VBool False)"
| "zero TInt = Conc (VInt 0)"
| "zero TString = Conc (VString [])"
| "zero (TStruct n fs) = Conc (VStruct (TStruct n fs) (zero_fields fs))"
| "zero (TPtr t) = Conc (VPtr t None)"
| "zero (TInterface n) = Boxed n None"
| "zero (TSlice t) = Conc (VSlice t None)"
| "zero (TMap k v) = Conc (VMap k v None)"
| "zero (TChan d t) = Conc (VChan d t None)"
| "zero (TFunc ins outs var) = Conc (VFunc ins outs var None)"
| "zero_fields [] = []"
| "zero_fields (SField nm pp t tg an # fs) = zero t # zero_fields fs"


section \<open>Values of package reflect, memory and the registry\<close>

text \<open>
  A \<^verbatim>\<open>reflect.Value\<close> is the zero Value (\<open>Invalid\<close>), a value that is not addressable
  (\<open>Direct\<close>, what \<^verbatim>\<open>reflect.ValueOf\<close> returns), or a reference to a variable in memory
  together with its type (\<open>Ref\<close>, what \<^verbatim>\<open>Elem\<close> of a pointer returns: addressable).
\<close>

datatype rvalue = Invalid | Direct stored | Ref rtype addr

datatype error =
    IncompatibleBinding rtype rtype
  | NotAnInterface
  | NotCallable
  | ReflectPanic string
  | UserPanic string

text \<open>
  The map \<^verbatim>\<open>values map[reflect.Type]interface{}\<close> only ever receives a \<^verbatim>\<open>reflect.Type\<close>
  (\<open>Alias\<close>), a \<^verbatim>\<open>providerBinding\<close> (\<open>Provider\<close>) or a \<^verbatim>\<open>reflect.Value\<close> (\<open>Instance\<close>).
  A provider is named by its identity; its body is found in the environment.
\<close>

datatype binding = Alias rtype | Provider pid bool | Instance rvalue

record container =
  c_parent :: "cid option"
  c_values :: "rtype \<rightharpoonup> binding"

text \<open>
  The world: the containers (by identity), the memory with its allocation pointer, and
  the list of provider invocations made by \<open>build\<close> so far (oldest first). The last is
  an observer added to the embedding: \<open>build\<close> appends to it after each invocation,
  whatever the body did to it, and nothing reads it.
\<close>

record world =
  conts :: "cid \<Rightarrow> container"
  heap :: "addr \<Rightarrow> stored"
  nextaddr :: addr
  calls :: "pid list"

text \<open>
  What the program around the container declares: which types implement which
  interface, which types are convertible (\<^verbatim>\<open>Type.ConvertibleTo\<close>), the bodies of the
  providers (\<^verbatim>\<open>func(Container) reflect.Value\<close>) and of the functions given to
  \<^verbatim>\<open>Call\<close>. A body is a total state transformer that may panic; it is given the
  container it is invoked for.
\<close>

record env =
  implements :: "rtype \<Rightarrow> string \<Rightarrow> bool"
  convertible :: "rtype \<Rightarrow> rtype \<Rightarrow> bool"
  providers :: "pid \<Rightarrow> cid \<Rightarrow> world \<Rightarrow> (error + rvalue) \<times> world"
  funcs :: "fid \<Rightarrow> stored list \<Rightarrow> world \<Rightarrow> (error + stored list) \<times> world"

subsection \<open>The operations of package reflect that the container uses\<close>

definition ValueOf :: "val \<Rightarrow> rvalue" where
  "ValueOf v = Direct (Conc v)"

fun Type :: "rvalue \<Rightarrow> rtype option" where
  "Type Invalid = None"
| "Type (Direct s) = Some (static_type s)"
| "Type (Ref t a) = Some t"


fun load :: "world \<Rightarrow> rvalue \<Rightarrow> stored option" where
  "load w Invalid = None"
| "load w (Direct s) = Some s"
| "load w (Ref t a) = Some (heap w a)"

fun CanAddr :: "rvalue \<Rightarrow> bool" where
  "CanAddr (Ref t a) = True"
| "CanAddr v = False"

fun Addr :: "rvalue \<Rightarrow> error + rvalue" where
  "Addr (Ref t a) = Inr (Direct (Conc (VPtr t (Some a))))"
| "Addr v = Inl (ReflectPanic ''reflect.Value.Addr of unaddressable value'')"

text \<open>
  \<^verbatim>\<open>Value.Elem\<close>: the variable a pointer points to, or the value an interface holds; the
  zero Value for a nil pointer or interface; a panic on any other kind.
\<close>

definition Elem :: "world \<Rightarrow> rvalue \<Rightarrow> error + rvalue" where
  "Elem w v =
     (case Type v of
        None \<Rightarrow> Inl (ReflectPanic ''reflect: call of reflect.Value.Elem on zero Value'')
      | Some (TPtr t) \<Rightarrow>
          (case load w v of
             Some (Conc (VPtr t' (Some a))) \<Rightarrow> Inr (Ref t a)
           | _ \<Rightarrow> Inr Invalid)
      | Some (TInterface n) \<Rightarrow>
          (case load w v of
             Some (Boxed n' (Some d)) \<Rightarrow> Inr (Direct (Conc d))
           | _ \<Rightarrow> Inr Invalid)
      | Some t \<Rightarrow> Inl (ReflectPanic ''reflect: call of reflect.Value.Elem on non-pointer Value''))"

definition Interface :: "world \<Rightarrow> rvalue \<Rightarrow> error + val option" where
  "Interface w v =
     (case load w v of
        None \<Rightarrow> Inl (ReflectPanic ''reflect: call of reflect.Value.Interface on zero Value'')
      | Some s \<Rightarrow> Inr (dyn s))"

definition New :: "rtype \<Rightarrow> world \<Rightarrow> rvalue \<times> world" where
  "New t w =
     (Direct (Conc (VPtr t (Some (nextaddr w)))),
      w\<lparr>heap := (heap w)(nextaddr w := zero t), nextaddr := Suc (nextaddr w)\<rparr>)"

definition MakeSlice :: "rtype \<Rightarrow> error + rvalue" where
  "MakeSlice t =
     (case t of
        TSlice e \<Rightarrow> Inr (Direct (Conc (VSlice e (Some []))))
      | _ \<Rightarrow> Inl (ReflectPanic ''reflect.MakeSlice of non-slice type''))"

definition MakeMap :: "rtype \<Rightarrow> error + rvalue" where
  "MakeMap t =
     (case t of
        TMap k v \<Rightarrow> Inr (Direct (Conc (VMap k v (Some []))))
      | _ \<Rightarrow> Inl (ReflectPanic ''reflect.MakeMap of non-map type''))"

text \<open>
  \<^verbatim>\<open>reflect.MakeChan(t, 0)\<close> checks the kind, then the direction: it panics with
  \<^verbatim>\<open>reflect.MakeChan: unidirectional channel type\<close> unless \<^verbatim>\<open>t.ChanDir() == BothDir\<close>.
\<close>

definition MakeChan :: "rtype \<Rightarrow> error + rvalue" where
  "MakeChan t =
     (case t of
        TChan d e \<Rightarrow>
          if d \<noteq> BothDir
          then Inl (ReflectPanic ''reflect.MakeChan: unidirectional channel type'')
          else Inr (Direct (Conc (VChan d e (Some 0))))
      | _ \<Rightarrow> Inl (ReflectPanic ''reflect.MakeChan of non-chan type''))"

text \<open>
  \<^verbatim>\<open>Type.AssignableTo\<close> on this universe: identical types, a type implementing an
  interface type, or a bidirectional channel given to a channel type of the same element.
\<close>

definition AssignableTo :: "env \<Rightarrow> rtype \<Rightarrow> rtype \<Rightarrow> bool" where
  "AssignableTo E x t =
     (x = t \<or>
      (case t of
         TInterface n \<Rightarrow> implements E x n
       | TChan d e \<Rightarrow> x = TChan BothDir e
       | _ \<Rightarrow> False))"

text \<open>The content a variable of type \<open>t\<close> receives when \<open>s\<close> is assigned to it.\<close>

definition assignTo :: "rtype \<Rightarrow> stored \<Rightarrow> stored" where
  "assignTo t s =
     (case t of
        TInterface n \<Rightarrow> Boxed n (dyn s)
      | TChan d e \<Rightarrow> (case s of Conc (VChan d' e' c) \<Rightarrow> Conc (VChan d e' c) | _ \<Rightarrow> s)
      | _ \<Rightarrow> s)"

text \<open>\<^verbatim>\<open>StructTag.Get\<close>: the value under a key, the empty string when the key is absent.\<close>

definition Tag_Get :: "(string \<times> string) list \<Rightarrow> string \<Rightarrow> string" where
  "Tag_Get tag key = (case map_of tag key of None \<Rightarrow> [] | Some v \<Rightarrow> v)"

text \<open>
  \<^verbatim>\<open>f := v.Field(i); f.CanSet()\<close>: the field of a struct Value can be set when the struct
  is addressable (\<open>loc\<close> is its address) and the field is exported.
\<close>

definition CanSet :: "addr option \<Rightarrow> sfield \<Rightarrow> bool" where
  "CanSet loc tf = (loc \<noteq> None \<and> pkgpath tf = [])"

fun set_field :: "stored \<Rightarrow> nat \<Rightarrow> stored \<Rightarrow> stored" where
  "set_field (Conc (VStruct t vs)) i s = Conc (VStruct t (vs[i := s]))"
| "set_field x i s = x"

text \<open>
  \<^verbatim>\<open>f.Set(x)\<close> for the field \<open>i\<close> (of type \<open>ft\<close>) of the struct at \<open>loc\<close>: panics on the
  zero Value and on a value whose type is not assignable to \<open>ft\<close>.
\<close>

definition Set_field ::
  "env \<Rightarrow> addr option \<Rightarrow> nat \<Rightarrow> rtype \<Rightarrow> rvalue \<Rightarrow> world \<Rightarrow> error option \<times> world" where
  "Set_field E loc i ft x w =
     (case loc of
        None \<Rightarrow> (Some (ReflectPanic ''reflect: reflect.Value.Set using unaddressable value''), w)
      | Some a \<Rightarrow>
          (case (Type x, load w x) of
             (Some xt, Some s) \<Rightarrow>
               if AssignableTo E xt ft
               then (None, w\<lparr>heap := (heap w)(a := set_field (heap w a) i (assignTo ft s))\<rparr>)
               else (Some (ReflectPanic ''reflect.Set: value is not assignable to type''), w)
           | _ \<Rightarrow> (Some (ReflectPanic ''reflect: call of reflect.Value.Set on zero Value''), w)))"

section \<open>The container\<close>

definition injectTag :: string where
  "injectTag = ''inject''"

definition NewContainer :: container where
  "NewContainer = \<lparr>c_parent = None, c_values = Map.empty\<rparr>"

definition ParentContainer :: "world \<Rightarrow> cid \<Rightarrow> cid option" where
  "ParentContainer w c = c_parent (conts w c)"

definition SetParentContainer :: "world \<Rightarrow> cid \<Rightarrow> cid option \<Rightarrow> world" where
  "SetParentContainer w c p = w\<lparr>conts := (conts w)(c := (conts w c)\<lparr>c_parent := p\<rparr>)\<rparr>"

definition HasRegistered :: "world \<Rightarrow> cid \<Rightarrow> rtype \<Rightarrow> bool" where
  "HasRegistered w c t = (case c_values (conts w c) t of None \<Rightarrow> False | Some b \<Rightarrow> True)"

definition Unregister :: "world \<Rightarrow> cid \<Rightarrow> rtype \<Rightarrow> world" where
  "Unregister w c t =
     w\<lparr>conts := (conts w)(c := (conts w c)\<lparr>c_values := (c_values (conts w c))(t := None)\<rparr>)\<rparr>"

text \<open>The assignment \<^verbatim>\<open>c.values[t] = b\<close>.\<close>

definition set_value :: "world \<Rightarrow> cid \<Rightarrow> rtype \<Rightarrow> binding \<Rightarrow> world" where
  "set_value w c t b =
     w\<lparr>conts := (conts w)(c := (conts w c)\<lparr>c_values := (c_values (conts w c))(t \<mapsto> b)\<rparr>)\<rparr>"

definition Register :: "world \<Rightarrow> cid \<Rightarrow> val \<Rightarrow> world" where
  "Register w c v = set_value w c (typeOf v) (Instance (ValueOf v))"

text \<open>
  \<^verbatim>\<open>RegisterAs\<close> receives a type (the branch \<^verbatim>\<open>val.(reflect.Type)\<close>) or a value. A panic
  leaves the world as it was when raised.
\<close>

datatype regarg = AType rtype | AValue val

definition RegisterAs :: "env \<Rightarrow> world \<Rightarrow> cid \<Rightarrow> regarg \<Rightarrow> rtype \<Rightarrow> error option \<times> world" where
  "RegisterAs E w c a t =
     (case a of
        AType vt \<Rightarrow>
          if \<not> convertible E vt t then (Some (IncompatibleBinding vt t), w)
          else (None, set_value w c t (Alias vt))
      | AValue v \<Rightarrow>
          if \<not> convertible E (typeOf v) t then (Some (IncompatibleBinding (typeOf v) t), w)
          else (None, set_value w c t (Instance (ValueOf v))))"

definition RegisterProvider :: "world \<Rightarrow> cid \<Rightarrow> pid \<Rightarrow> rtype \<Rightarrow> bool \<Rightarrow> world" where
  "RegisterProvider w c p t shared = set_value w c t (Provider p shared)"

text \<open>
  \<^verbatim>\<open>InterfaceOf\<close>: the type under the pointers of the type of the argument, which must
  be an interface type.
\<close>

fun strip_pointers :: "rtype \<Rightarrow> rtype" where
  "strip_pointers (TPtr t) = strip_pointers t"
| "strip_pointers t = t"

definition InterfaceOf :: "val \<Rightarrow> error + rtype" where
  "InterfaceOf iface =
     (case strip_pointers (typeOf iface) of
        TInterface n \<Rightarrow> Inr (TInterface n)
      | _ \<Rightarrow> Inl NotAnInterface)"

text \<open>The loop \<^verbatim>\<open>for v.Kind() == reflect.Ptr { v = v.Elem() }\<close> of \<^verbatim>\<open>inject\<close>.\<close>

fun deref_type :: "world \<Rightarrow> rtype \<Rightarrow> addr \<Rightarrow> rvalue" where
  "deref_type w (TPtr t) a =
     (case heap w a of
        Conc (VPtr t' (Some b)) \<Rightarrow> deref_type w t b
      | _ \<Rightarrow> Invalid)"
| "deref_type w t a = Ref t a"

fun deref :: "world \<Rightarrow> rvalue \<Rightarrow> rvalue" where
  "deref w (Direct (Conc (VPtr t (Some a)))) = deref_type w t a"
| "deref w (Direct (Conc (VPtr t None))) = Invalid"
| "deref w (Ref t a) = deref_type w t a"
| "deref w v = v"

fun addr_of :: "rvalue \<Rightarrow> addr option" where
  "addr_of (Ref t a) = Some a"
| "addr_of v = None"

text \<open>
  The last statement of \<^verbatim>\<open>build\<close>, \<^verbatim>\<open>return reflect.New(t).Elem()\<close>: a fresh variable
  holding the zero value of \<open>t\<close>.
\<close>

definition zero_default :: "rtype \<Rightarrow> world \<Rightarrow> ((error + rvalue) \<times> world) option" where
  "zero_default t w = (case New t w of (r, w2) \<Rightarrow> Some (Elem w2 r, w2))"

text \<open>
  \<^verbatim>\<open>build\<close>, \<^verbatim>\<open>inject\<close> and the field loop of \<^verbatim>\<open>inject\<close>. The recursion of \<^verbatim>\<open>build\<close> is
  not bounded by the code (an alias cycle or a container that is its own ancestor
  recurses forever), so \<open>build\<close> takes fuel, one unit per nested call of \<^verbatim>\<open>build\<close>:
  \<open>None\<close> means that the fuel did not suffice. A result is the Value returned or the
  panic raised, with the world at that moment.
\<close>

function (sequential)
  build :: "env \<Rightarrow> nat \<Rightarrow> cid \<Rightarrow> rtype \<Rightarrow> world \<Rightarrow> ((error + rvalue) \<times> world) option"
and inject :: "env \<Rightarrow> nat \<Rightarrow> cid \<Rightarrow> rvalue \<Rightarrow> world \<Rightarrow> (error option \<times> world) option"
and inject_fields ::
  "env \<Rightarrow> nat \<Rightarrow> cid \<Rightarrow> addr option \<Rightarrow> nat \<Rightarrow> sfield list \<Rightarrow> world
     \<Rightarrow> (error option \<times> world) option"
where
  "build E 0 c t w = None"
| "build E (Suc n) c t w =
     (case c_values (conts w c) t of
        Some (Alias t') \<Rightarrow> build E n c t' w
      | Some (Provider p shared) \<Rightarrow>
          (case providers E p c w of
             (Inl e, w') \<Rightarrow> Some (Inl e, w'\<lparr>calls := calls w @ [p]\<rparr>)
           | (Inr v, w') \<Rightarrow>
               if \<not> shared then Some (Inr v, w'\<lparr>calls := calls w @ [p]\<rparr>)
               else Some (Inr v, set_value (w'\<lparr>calls := calls w @ [p]\<rparr>) c t (Instance v)))
      | Some (Instance v) \<Rightarrow> Some (Inr v, w)
      | None \<Rightarrow>
          (case c_parent (conts w c) of
             Some p \<Rightarrow> build E n p t w
           | None \<Rightarrow>
               if c_values (conts w c) (TPtr t) \<noteq> None then
                 (case build E n c (TPtr t) w of
                    None \<Rightarrow> None
                  | Some (Inl e, w') \<Rightarrow> Some (Inl e, w')
                  | Some (Inr v, w') \<Rightarrow> Some (Elem w' v, w'))
               else
                 (case t of
                    TStruct nm fs \<Rightarrow>
                      (case New t w of
                         (r, w1) \<Rightarrow>
                           (case inject E n c r w1 of
                              None \<Rightarrow> None
                            | Some (Some e, w2) \<Rightarrow> Some (Inl e, w2)
                            | Some (None, w2) \<Rightarrow> Some (Elem w2 r, w2)))
                  | TSlice e \<Rightarrow> Some (MakeSlice t, w)
                  | TMap k v \<Rightarrow> Some (MakeMap t, w)
                  | TChan d e \<Rightarrow> Some (MakeChan t, w)
                  | TPtr e \<Rightarrow>
                      (case build E n c e w of
                         None \<Rightarrow> None
                       | Some (Inl err, w') \<Rightarrow> Some (Inl err, w')
                       | Some (Inr v, w') \<Rightarrow>
                           if CanAddr v then Some (Addr v, w')
                           else zero_default t w')
                  | _ \<Rightarrow> zero_default t w)))"
| "inject E n c v w =
     (case Type (deref w v) of
        Some (TStruct nm fs) \<Rightarrow> inject_fields E n c (addr_of (deref w v)) 0 fs w
      | _ \<Rightarrow> Some (None, w))"
| "inject_fields E n c loc i [] w = Some (None, w)"
| "inject_fields E n c loc i (tf # tfs) w =
     (if CanSet loc tf \<and> Tag_Get (ftag tf) injectTag \<noteq> [] then
        (case build E n c (ftype tf) w of
           None \<Rightarrow> None
         | Some (Inl e, w') \<Rightarrow> Some (Some e, w')
         | Some (Inr x, w') \<Rightarrow>
             (case Set_field E loc i (ftype tf) x w' of
                (Some e, w'') \<Rightarrow> Some (Some e, w'')
              | (None, w'') \<Rightarrow> inject_fields E n c loc (Suc i) tfs w''))
      else inject_fields E n c loc (Suc i) tfs w)"
  by pat_completeness auto
termination
  by (relation "measures
        [\<lambda>x. case x of
               Inl (E, n, c, t, w) \<Rightarrow> 3 * n
             | Inr (Inl (E, n, c, v, w)) \<Rightarrow> 3 * n + 2
             | Inr (Inr (E, n, c, loc, i, tfs, w)) \<Rightarrow> 3 * n + 1,
         \<lambda>x. case x of
               Inr (Inr (E, n, c, loc, i, tfs, w)) \<Rightarrow> length tfs
             | _ \<Rightarrow> 0]") auto

definition Make ::
  "env \<Rightarrow> nat \<Rightarrow> cid \<Rightarrow> rtype \<Rightarrow> world \<Rightarrow> ((error + val option) \<times> world) option" where
  "Make E n c t w =
     (case build E n c t w of
        None \<Rightarrow> None
      | Some (Inl e, w') \<Rightarrow> Some (Inl e, w')
      | Some (Inr v, w') \<Rightarrow> Some (Interface w' v, w'))"


section \<open>Calling a function with injected arguments\<close>

text \<open>
  \<^verbatim>\<open>reflect.Value.Call\<close>, as package reflect implements it: it refuses a nil function;
  for a variadic function it takes the declared parameters but the last as they are and
  packs every further argument into the variadic slice itself; it refuses the zero Value
  and an argument that is not assignable to its parameter.
\<close>

definition arg_ok :: "env \<Rightarrow> rvalue \<Rightarrow> rtype \<Rightarrow> bool" where
  "arg_ok E x t = (case Type x of None \<Rightarrow> False | Some xt \<Rightarrow> AssignableTo E xt t)"

text \<open>
  The content a parameter of type \<open>t\<close> receives from the argument \<open>x\<close> (the zero Value
  is refused before any argument is read).
\<close>

definition arg_in :: "world \<Rightarrow> rvalue \<Rightarrow> rtype \<Rightarrow> stored" where
  "arg_in w x t = (case load w x of None \<Rightarrow> zero t | Some s \<Rightarrow> assignTo t s)"

definition value_Call ::
  "env \<Rightarrow> val \<Rightarrow> rvalue list \<Rightarrow> world \<Rightarrow> (error + stored list) \<times> world" where
  "value_Call E f args w =
     (case f of
        VFunc ins outs var None \<Rightarrow>
          (Inl (ReflectPanic ''reflect.Value.Call: call of nil function''), w)
      | VFunc ins outs var (Some g) \<Rightarrow>
          (let n = (if var then length ins - 1 else length ins) in
           if length args < n
           then (Inl (ReflectPanic ''reflect: Call with too few input arguments''), w)
           else if \<not> var \<and> n < length args
           then (Inl (ReflectPanic ''reflect: Call with too many input arguments''), w)
           else if Invalid \<in> set args
           then (Inl (ReflectPanic ''reflect: Call using zero Value argument''), w)
           else if \<not> list_all2 (arg_ok E) (take n args) (take n ins)
           then (Inl (ReflectPanic ''reflect: Call using value as type''), w)
           else if var then
             (case drop n ins of
                TSlice e # rest \<Rightarrow>
                  if \<not> list_all (\<lambda>x. arg_ok E x e) (drop n args)
                  then (Inl (ReflectPanic ''reflect: cannot use value as type in Call''), w)
                  else funcs E g
                         (map2 (arg_in w) (take n args) (take n ins) @
                          [Conc (VSlice e (Some (map (\<lambda>x. arg_in w x e) (drop n args))))]) w
              | _ \<Rightarrow> (Inl (ReflectPanic ''reflect: variadic parameter is not a slice''), w))
           else funcs E g (map2 (arg_in w) args ins) w)
      | _ \<Rightarrow> (Inl (ReflectPanic ''reflect: call of reflect.Value.Call on non-func Value''), w))"

text \<open>
  The loop \<^verbatim>\<open>for i := 0; i < t.NumIn(); i++ { in[i] = c.build(t.In(i)) }\<close> on the array
  \<^verbatim>\<open>in\<close> (here \<open>args\<close>).
\<close>

function call_loop ::
  "env \<Rightarrow> nat \<Rightarrow> cid \<Rightarrow> rtype list \<Rightarrow> nat \<Rightarrow> rvalue list \<Rightarrow> world
     \<Rightarrow> ((error + rvalue list) \<times> world) option" where
  "call_loop E n c ts i args w =
     (if i < length ts then
        (case build E n c (ts ! i) w of
           None \<Rightarrow> None
         | Some (Inl e, w') \<Rightarrow> Some (Inl e, w')
         | Some (Inr v, w') \<Rightarrow> call_loop E n c ts (Suc i) (args[i := v]) w')
      else Some (Inr args, w))"
  by pat_completeness auto
termination
  by (relation "measure (\<lambda>(E, n, c, ts, i, args, w). length ts - i)") auto

declare call_loop.simps [simp del]

text \<open>
  \<^verbatim>\<open>Call\<close>: \<^verbatim>\<open>t.NumIn()\<close> panics when \<open>f\<close> is not a function; the results are returned
  through \<^verbatim>\<open>Interface()\<close>.
\<close>

definition Call ::
  "env \<Rightarrow> nat \<Rightarrow> cid \<Rightarrow> val \<Rightarrow> world \<Rightarrow> ((error + val option list) \<times> world) option" where
  "Call E n c f w =
     (case typeOf f of
        TFunc ins outs var \<Rightarrow>
          (case call_loop E n c ins 0 (replicate (length ins) Invalid) w of
             None \<Rightarrow> None
           | Some (Inl e, w') \<Rightarrow> Some (Inl e, w')
           | Some (Inr args, w') \<Rightarrow>
               (case value_Call E f args w' of
                  (Inl e, w'') \<Rightarrow> Some (Inl e, w'')
                | (Inr rs, w'') \<Rightarrow> Some (Inr (map dyn rs), w'')))
      | _ \<Rightarrow> Some (Inl NotCallable, w))"

section \<open>Notions used to state the properties\<close>

text \<open>\<open>k\<close> successive resolutions of the same type on the same container.\<close>

fun build_times ::
  "env \<Rightarrow> nat \<Rightarrow> nat \<Rightarrow> cid \<Rightarrow> rtype \<Rightarrow> world \<Rightarrow> ((error + rvalue list) \<times> world) option" where
  "build_times E n 0 c t w = Some (Inr [], w)"
| "build_times E n (Suc k) c t w =
     (case build E n c t w of
        None \<Rightarrow> None
      | Some (Inl e, w') \<Rightarrow> Some (Inl e, w')
      | Some (Inr v, w') \<Rightarrow>
          (case build_times E n k c t w' of
             None \<Rightarrow> None
           | Some (Inl e, w'') \<Rightarrow> Some (Inl e, w'')
           | Some (Inr vs, w'') \<Rightarrow> Some (Inr (v # vs), w'')))"

text \<open>
  \<open>k\<close> successive invocations of the provider \<open>f\<close> itself, each recorded, stopping at the
  first panic.
\<close>

fun invoke_times ::
  "env \<Rightarrow> pid \<Rightarrow> cid \<Rightarrow> nat \<Rightarrow> world \<Rightarrow> (error + rvalue list) \<times> world" where
  "invoke_times E f c 0 w = (Inr [], w)"
| "invoke_times E f c (Suc k) w =
     (case providers E f c w of
        (Inl e, w') \<Rightarrow> (Inl e, w'\<lparr>calls := calls w @ [f]\<rparr>)
      | (Inr v, w') \<Rightarrow>
          (case invoke_times E f c k (w'\<lparr>calls := calls w @ [f]\<rparr>) of
             (Inl e, w'') \<Rightarrow> (Inl e, w'')
           | (Inr vs, w'') \<Rightarrow> (Inr (v # vs), w'')))"

text \<open>
  The structural fallback as the specification words it (section 4.2, step 3): (a) the
  pointer to the type is bound here: resolve it and dereference; (b) a pointer type:
  resolve the element and return its address when it has one, else the zero value;
  (c) a struct type: a new zero struct, injected; (d) a slice, map or channel type: a
  new empty one; (e) otherwise the zero value.
\<close>

definition structural_fallback ::
  "env \<Rightarrow> nat \<Rightarrow> cid \<Rightarrow> rtype \<Rightarrow> world \<Rightarrow> ((error + rvalue) \<times> world) option" where
  "structural_fallback E n c t w =
     (if HasRegistered w c (TPtr t) then
        (case build E n c (TPtr t) w of
           None \<Rightarrow> None
         | Some (Inl e, w') \<Rightarrow> Some (Inl e, w')
         | Some (Inr v, w') \<Rightarrow> Some (Elem w' v, w'))
      else
        (case t of
           TPtr e \<Rightarrow>
             (case build E n c e w of
                None \<Rightarrow> None
              | Some (Inl err, w') \<Rightarrow> Some (Inl err, w')
              | Some (Inr v, w') \<Rightarrow> if CanAddr v then Some (Addr v, w') else zero_default t w')
         | TStruct nm fs \<Rightarrow>
             (case inject E n c (fst (New t w)) (snd (New t w)) of
                None \<Rightarrow> None
              | Some (Some e, w2) \<Rightarrow> Some (Inl e, w2)
              | Some (None, w2) \<Rightarrow> Some (Elem w2 (fst (New t w)), w2))
         | TSlice e \<Rightarrow> Some (MakeSlice t, w)
         | TMap k v \<Rightarrow> Some (MakeMap t, w)
         | TChan d e \<Rightarrow> Some (MakeChan t, w)
         | _ \<Rightarrow> zero_default t w))"









text \<open>
  The resolution of a parameter list as the specification words it (section 4.4): a
  value for each declared parameter type, positionally, left to right.
\<close>

fun resolve_all ::
  "env \<Rightarrow> nat \<Rightarrow> cid \<Rightarrow> rtype list \<Rightarrow> world \<Rightarrow> ((error + rvalue list) \<times> world) option" where
  "resolve_all E n c [] w = Some (Inr [], w)"
| "resolve_all E n c (t # ts) w =
     (case build E n c t w of
        None \<Rightarrow> None
      | Some (Inl e, w') \<Rightarrow> Some (Inl e, w')
      | Some (Inr v, w') \<Rightarrow>
          (case resolve_all E n c ts w' of
             None \<Rightarrow> None
           | Some (Inl e, w'') \<Rightarrow> Some (Inl e, w'')
           | Some (Inr vs, w'') \<Rightarrow> Some (Inr (v # vs), w'')))"

text \<open>
  For resolution on a container without bindings: \<open>defaultable t\<close> says that no channel
  type with a direction is met where \<^verbatim>\<open>build\<close> goes from \<open>t\<close> (through pointer elements
  and through the fields that are exported and tagged); \<open>depth t\<close> is the nesting of calls
  of \<^verbatim>\<open>build\<close> on that way; \<open>unbound w c\<close> says that \<open>c\<close> has no binding and no parent.
\<close>

fun defaultable :: "rtype \<Rightarrow> bool"
and defaultable_fields :: "sfield list \<Rightarrow> bool" where
  "defaultable (TChan d e) = (d = BothDir)"
| "defaultable (TPtr e) = defaultable e"
| "defaultable (TStruct nm fs) = defaultable_fields fs"
| "defaultable t = True"
| "defaultable_fields [] = True"
| "defaultable_fields (SField nm pp t tg an # fs) =
     ((pp = [] \<and> Tag_Get tg injectTag \<noteq> [] \<longrightarrow> defaultable t) \<and> defaultable_fields fs)"

fun depth :: "rtype \<Rightarrow> nat"
and depth_fields :: "sfield list \<Rightarrow> nat" where
  "depth (TPtr e) = Suc (depth e)"
| "depth (TStruct nm fs) = depth_fields fs"
| "depth t = 0"
| "depth_fields [] = 0"
| "depth_fields (SField nm pp t tg an # fs) =
     max (if pp = [] \<and> Tag_Get tg injectTag \<noteq> [] then Suc (depth t) else 0) (depth_fields fs)"

definition unbound :: "world \<Rightarrow> cid \<Rightarrow> bool" where
  "unbound w c = (c_parent (conts w c) = None \<and> (\<forall>t. c_values (conts w c) t = None))"

subsection \<open>A small program, for concrete runs\<close>

text \<open>
  Nothing implements an interface, a type converts to itself only, provider \<open>p\<close> returns
  the integer \<open>p\<close> and a called function returns its arguments. The world has empty
  containers; container 1 is a child of container 0.
\<close>

definition ex_env :: env where
  "ex_env =
     \<lparr>implements = (\<lambda>t n. False),
      convertible = (\<lambda>x t. x = t),
      providers = (\<lambda>p c w. (Inr (Direct (Conc (VInt (int p)))), w)),
      funcs = (\<lambda>g args w. (Inr args, w))\<rparr>"

definition ex_Foo :: rtype where
  "ex_Foo = TStruct ''Foo'' [SField ''a'' ''di'' TString [] False]"

definition ex_world :: world where
  "ex_world =
     \<lparr>conts = (\<lambda>c. if c = 1 then \<lparr>c_parent = Some 0, c_values = Map.empty\<rparr> else NewContainer),
      heap = (\<lambda>a. if a = 0 then Conc (VStruct ex_Foo [Conc (VString ''abc'')]) else Conc (VInt 0)),
      nextaddr = 1,
      calls = []\<rparr>"



section \<open>Instance bindings\<close>

lemma values_set_value:
  "c_values (conts (set_value w c t b) c') t' =
     (if c' = c \<and> t' = t then Some b else c_values (conts w c') t')"
  by (simp add: set_value_def)

text \<open>
  C1. After \<^verbatim>\<open>Register(v)\<close> on a container, \<^verbatim>\<open>Make\<close> of the type of \<open>v\<close> on that container
  returns \<open>v\<close> itself, whatever else the container, its parent and the memory hold: the
  instance branch of \<^verbatim>\<open>build\<close> returns the stored Value and changes nothing.
\<close>

theorem register_then_make:
  "Make E (Suc n) c (typeOf v) (Register w c v) = Some (Inr (Some v), Register w c v)"
  by (simp add: Make_def Register_def values_set_value ValueOf_def Interface_def)

section \<open>Provider bindings\<close>

lemma calls_set_value: "calls (set_value w c t b) = calls w"
  by (simp add: set_value_def)

lemma build_provider_unshared:
  "c_values (conts w c) T = Some (Provider f False) \<Longrightarrow>
   build E (Suc n) c T w =
     Some (fst (providers E f c w), (snd (providers E f c w))\<lparr>calls := calls w @ [f]\<rparr>)"
  by (simp split: prod.splits sum.splits)

text \<open>
  C2. After \<^verbatim>\<open>RegisterProvider(f, T, true)\<close>, when \<open>f\<close> returns \<open>v\<close>: the first resolution
  of \<open>T\<close> returns \<open>v\<close>, records one invocation of \<open>f\<close> and leaves the world as \<open>f\<close> left
  it except that \<open>T\<close> is now bound to the instance \<open>v\<close>; every later resolution (the
  second, and any \<open>k\<close> in a row) returns the same \<open>v\<close> and leaves the world, and so the
  record of invocations, unchanged: \<open>f\<close> was invoked once in all.
\<close>

lemma build_times_instance:
  "c_values (conts w c) T = Some (Instance v) \<Longrightarrow>
   build_times E (Suc m) k c T w = Some (Inr (replicate k v), w)"
  by (induction k) simp_all

theorem shared_provider_once:
  assumes "providers E f c (RegisterProvider w c f T True) = (Inr v, w2)"
    and "w3 = set_value (w2\<lparr>calls := calls w @ [f]\<rparr>) c T (Instance v)"
  shows "build E (Suc n) c T (RegisterProvider w c f T True) = Some (Inr v, w3)
       \<and> c_values (conts w3 c) T = Some (Instance v)
       \<and> build E (Suc m) c T w3 = Some (Inr v, w3)
       \<and> build_times E (Suc m) k c T w3 = Some (Inr (replicate k v), w3)
       \<and> calls w3 = calls w @ [f]"
proof -
  have i: "c_values (conts w3 c) T = Some (Instance v)"
    using assms(2) by (simp add: values_set_value)
  show ?thesis
    using assms build_times_instance [OF i, of E m k]
    by (simp add: RegisterProvider_def values_set_value calls_set_value)
qed

theorem shared_provider_once_witness:
  "build ex_env (Suc 0) 0 TInt (RegisterProvider ex_world 0 5 TInt True)
     = Some (Inr (Direct (Conc (VInt 5))),
             set_value ((RegisterProvider ex_world 0 5 TInt True)\<lparr>calls := calls ex_world @ [5]\<rparr>)
               0 TInt (Instance (Direct (Conc (VInt 5)))))
   \<and> build_times ex_env (Suc 0) 3 0 TInt
        (set_value ((RegisterProvider ex_world 0 5 TInt True)\<lparr>calls := calls ex_world @ [5]\<rparr>)
           0 TInt (Instance (Direct (Conc (VInt 5)))))
     = Some (Inr [Direct (Conc (VInt 5)), Direct (Conc (VInt 5)), Direct (Conc (VInt 5))],
             set_value ((RegisterProvider ex_world 0 5 TInt True)\<lparr>calls := calls ex_world @ [5]\<rparr>)
               0 TInt (Instance (Direct (Conc (VInt 5)))))
   \<and> calls (set_value ((RegisterProvider ex_world 0 5 TInt True)\<lparr>calls := calls ex_world @ [5]\<rparr>)
              0 TInt (Instance (Direct (Conc (VInt 5))))) = [5]"
proof -
  have r: "replicate 3 v = [v, v, v]" for v :: rvalue
    by (simp add: numeral_3_eq_3)
  show ?thesis
    using shared_provider_once [of ex_env 5 0 ex_world TInt "Direct (Conc (VInt 5))"
        "RegisterProvider ex_world 0 5 TInt True"
        "set_value ((RegisterProvider ex_world 0 5 TInt True)\<lparr>calls := calls ex_world @ [5]\<rparr>)
           0 TInt (Instance (Direct (Conc (VInt 5))))" 0 0 3]
    by (simp add: ex_env_def ex_world_def r)
qed

text \<open>
  C3. After \<^verbatim>\<open>RegisterProvider(f, T, false)\<close>, a resolution of \<open>T\<close> is one invocation of
  \<open>f\<close>: it returns what \<open>f\<close> returns (or panics as \<open>f\<close> does) and leaves the world as \<open>f\<close>
  left it, the record of the invocation apart; \<^verbatim>\<open>build\<close> itself writes nothing to the
  registry. So, for a provider that does not itself rebind \<open>T\<close> in the container, \<open>k\<close>
  successive resolutions of \<open>T\<close> are exactly \<open>k\<close> successive invocations of \<open>f\<close>, the
  binding of \<open>T\<close> is still the provider binding afterwards, and when none of them
  panics there are \<open>k\<close> values and \<open>k\<close> recorded invocations.
\<close>

theorem unshared_provider_each_time:
  assumes w1: "w1 = RegisterProvider w c f T False"
  shows "build E (Suc n) c T w1
           = Some (fst (providers E f c w1), (snd (providers E f c w1))\<lparr>calls := calls w @ [f]\<rparr>)
       \<and> ((\<forall>w'. c_values (conts (snd (providers E f c w')) c) T = c_values (conts w' c) T) \<longrightarrow>
            build_times E (Suc n) k c T w1 = Some (invoke_times E f c k w1)
          \<and> c_values (conts (snd (invoke_times E f c k w1)) c) T = Some (Provider f False)
          \<and> (\<forall>vs. fst (invoke_times E f c k w1) = Inr vs \<longrightarrow>
                length vs = k
              \<and> calls (snd (invoke_times E f c k w1)) = calls w @ replicate k f))"
proof -
  have bound: "c_values (conts w1 c) T = Some (Provider f False)"
    by (simp add: w1 RegisterProvider_def values_set_value)
  have one: "build E (Suc n) c T w1
           = Some (fst (providers E f c w1), (snd (providers E f c w1))\<lparr>calls := calls w @ [f]\<rparr>)"
    using build_provider_unshared [OF bound, of E n]
    by (simp add: w1 RegisterProvider_def calls_set_value)
  have many: "build_times E (Suc n) k c T u = Some (invoke_times E f c k u)
       \<and> c_values (conts (snd (invoke_times E f c k u)) c) T = Some (Provider f False)
       \<and> (\<forall>vs. fst (invoke_times E f c k u) = Inr vs \<longrightarrow>
             length vs = k \<and> calls (snd (invoke_times E f c k u)) = calls u @ replicate k f)"
    if keep: "\<And>w'. c_values (conts (snd (providers E f c w')) c) T = c_values (conts w' c) T"
      and u: "c_values (conts u c) T = Some (Provider f False)"
    for u
    using u
  proof (induction k arbitrary: u)
    case 0
    then show ?case by simp
  next
    case (Suc k)
    obtain r u' where r: "providers E f c u = (r, u')" by (cases "providers E f c u")
    let ?u1 = "u'\<lparr>calls := calls u @ [f]\<rparr>"
    have b: "build E (Suc n) c T u = Some (r, ?u1)"
      using build_provider_unshared [OF Suc.prems, of E n] r by simp
    have kept: "c_values (conts ?u1 c) T = Some (Provider f False)"
      using keep [of u] r Suc.prems by simp
    show ?case
    proof (cases r)
      case (Inl e)
      then show ?thesis using b r kept by simp
    next
      case (Inr v)
      note IH = Suc.IH [OF kept]
      obtain r2 u2 where i: "invoke_times E f c k ?u1 = (r2, u2)"
        by (cases "invoke_times E f c k ?u1")
      show ?thesis
        using Inr b r i IH
        by (cases r2) (auto simp: replicate_append_same)
    qed
  qed
  have cw: "calls w1 = calls w"
    by (simp add: w1 RegisterProvider_def calls_set_value)
  show ?thesis
    using one many [OF _ bound] cw by simp
qed

theorem unshared_provider_each_time_witness:
  "build ex_env (Suc 0) 0 TInt (RegisterProvider ex_world 0 5 TInt False)
     = Some (Inr (Direct (Conc (VInt 5))), (RegisterProvider ex_world 0 5 TInt False)\<lparr>calls := [5]\<rparr>)
   \<and> build_times ex_env (Suc 0) 2 0 TInt (RegisterProvider ex_world 0 5 TInt False)
     = Some (Inr [Direct (Conc (VInt 5)), Direct (Conc (VInt 5))],
             (RegisterProvider ex_world 0 5 TInt False)\<lparr>calls := [5, 5]\<rparr>)
   \<and> c_values (conts ((RegisterProvider ex_world 0 5 TInt False)\<lparr>calls := [5, 5]\<rparr>) 0) TInt
       = Some (Provider 5 False)"
proof -
  have i: "invoke_times ex_env 5 0 2 (RegisterProvider ex_world 0 5 TInt False)
     = (Inr [Direct (Conc (VInt 5)), Direct (Conc (VInt 5))],
        (RegisterProvider ex_world 0 5 TInt False)\<lparr>calls := [5, 5]\<rparr>)"
    by (simp add: numeral_2_eq_2 ex_env_def calls_set_value RegisterProvider_def ex_world_def)
  have k: "\<forall>w'. c_values (conts (snd (providers ex_env 5 0 w')) 0) TInt = c_values (conts w' 0) TInt"
    by (simp add: ex_env_def)
  have p: "providers ex_env 5 0 u = (Inr (Direct (Conc (VInt 5))), u)" for u
    by (simp add: ex_env_def)
  have c: "calls ex_world = []"
    by (simp add: ex_world_def)
  show ?thesis
    using unshared_provider_each_time [of "RegisterProvider ex_world 0 5 TInt False"
        ex_world 0 5 TInt ex_env 0 2, OF refl] i k p c
    by (simp del: build.simps)
qed

section \<open>Registration of an incompatible value\<close>

text \<open>
  C5, as stated, at a container that already binds the target type: the interface type
  \<open>Writer\<close> is bound to a provider; the registration of a string (which does not convert
  to \<open>Writer\<close>) under \<open>Writer\<close> panics, and \<^verbatim>\<open>HasRegistered\<close> of \<open>Writer\<close> is true
  afterwards, not false.
\<close>

theorem incompatible_registration_counterexample:
  "\<not> convertible ex_env (typeOf (VString ''x'')) (TInterface ''Writer'')
   \<and> fst (RegisterAs ex_env (RegisterProvider ex_world 0 5 (TInterface ''Writer'') True) 0
            (AValue (VString ''x'')) (TInterface ''Writer''))
       = Some (IncompatibleBinding TString (TInterface ''Writer''))
   \<and> HasRegistered
        (snd (RegisterAs ex_env (RegisterProvider ex_world 0 5 (TInterface ''Writer'') True) 0
                (AValue (VString ''x'')) (TInterface ''Writer'')))
        0 (TInterface ''Writer'')"
  by (simp add: RegisterAs_def ex_env_def RegisterProvider_def HasRegistered_def
      values_set_value)

text \<open>
  C5, amended. For every value \<open>x\<close> whose type is not convertible to \<open>Y\<close>,
  \<^verbatim>\<open>RegisterAs(x, Y)\<close> panics with the incompatibility error and leaves the world as it
  was: \<^verbatim>\<open>HasRegistered\<close> answers for every type as before the call, so it is false for \<open>Y\<close>
  when \<open>Y\<close> had no binding before.
\<close>

theorem incompatible_registration:
  assumes "\<not> convertible E (typeOf x) Y"
  shows "RegisterAs E w c (AValue x) Y = (Some (IncompatibleBinding (typeOf x) Y), w)
       \<and> (\<forall>u. HasRegistered (snd (RegisterAs E w c (AValue x) Y)) c u = HasRegistered w c u)
       \<and> (\<not> HasRegistered w c Y \<longrightarrow> \<not> HasRegistered (snd (RegisterAs E w c (AValue x) Y)) c Y)"
  using assms by (simp add: RegisterAs_def)

theorem incompatible_registration_witness:
  "\<not> convertible ex_env (typeOf (VString ''x'')) (TInterface ''Writer'')
   \<and> RegisterAs ex_env ex_world 0 (AValue (VString ''x'')) (TInterface ''Writer'')
       = (Some (IncompatibleBinding TString (TInterface ''Writer'')), ex_world)
   \<and> \<not> HasRegistered ex_world 0 (TInterface ''Writer'')
   \<and> \<not> HasRegistered
          (snd (RegisterAs ex_env ex_world 0 (AValue (VString ''x'')) (TInterface ''Writer'')))
          0 (TInterface ''Writer'')"
proof -
  have h: "\<not> convertible ex_env (typeOf (VString ''x'')) (TInterface ''Writer'')"
    by (simp add: ex_env_def)
  have r: "\<not> HasRegistered ex_world 0 (TInterface ''Writer'')"
    by (simp add: HasRegistered_def ex_world_def NewContainer_def)
  show ?thesis
    using h r incompatible_registration [OF h, of ex_world 0] by simp
qed

section \<open>The parent container and the structural fallback\<close>

lemma build_unbound_no_parent:
  "c_values (conts w c) T = None \<Longrightarrow> c_parent (conts w c) = None \<Longrightarrow>
   build E (Suc n) c T w = structural_fallback E n c T w"
  by (cases T) (simp_all add: structural_fallback_def HasRegistered_def
      case_prod_beta del: inject.simps split: option.split)

text \<open>
  C6. When the child \<open>c\<close> has no binding for \<open>T\<close> and has the parent \<open>p\<close>, \<^verbatim>\<open>build\<close> on
  the child is \<^verbatim>\<open>build\<close> on the parent, with the parent as receiver; so with an instance
  binding for \<open>T\<close> in the parent the child returns the parent's value. Once the parent
  link is removed, the same resolution is the structural fallback on the child.
\<close>

theorem parent_delegation:
  assumes "c_values (conts w c) T = None" and "c_parent (conts w c) = Some p"
  shows "build E (Suc n) c T w = build E n p T w
       \<and> (c_values (conts w p) T = Some (Instance v) \<longrightarrow>
            build E (Suc (Suc n)) c T w = Some (Inr v, w))
       \<and> build E (Suc n) c T (SetParentContainer w c None)
           = structural_fallback E n c T (SetParentContainer w c None)"
proof -
  have a: "build E (Suc n) c T w = build E n p T w" for n
    using assms by simp
  have b: "build E (Suc (Suc n)) c T w = Some (Inr v, w)"
    if "c_values (conts w p) T = Some (Instance v)"
    using that a [of "Suc n"] by simp
  have c: "build E (Suc n) c T (SetParentContainer w c None)
           = structural_fallback E n c T (SetParentContainer w c None)"
    by (rule build_unbound_no_parent) (simp_all add: SetParentContainer_def assms)
  show ?thesis using a b c by blast
qed

theorem parent_delegation_witness:
  "c_values (conts (Register ex_world 0 (VInt 7)) 1) TInt = None
   \<and> c_parent (conts (Register ex_world 0 (VInt 7)) 1) = Some 0
   \<and> build ex_env (Suc (Suc 0)) 1 TInt (Register ex_world 0 (VInt 7))
       = Some (Inr (Direct (Conc (VInt 7))), Register ex_world 0 (VInt 7))
   \<and> map_option fst
       (build ex_env (Suc 0) 1 TInt (SetParentContainer (Register ex_world 0 (VInt 7)) 1 None))
       = Some (Inr (Ref TInt 1))
   \<and> map_option (\<lambda>r. heap (snd r) 1)
       (build ex_env (Suc 0) 1 TInt (SetParentContainer (Register ex_world 0 (VInt 7)) 1 None))
       = Some (Conc (VInt 0))"
proof -
  let ?w = "Register ex_world 0 (VInt 7)"
  have h1: "c_values (conts ?w 1) TInt = None"
    by (simp add: Register_def values_set_value ex_world_def)
  have h2: "c_parent (conts ?w 1) = Some 0"
    by (simp add: Register_def set_value_def ex_world_def)
  have h3: "c_values (conts ?w 0) TInt = Some (Instance (Direct (Conc (VInt 7))))"
    by (simp add: Register_def values_set_value ValueOf_def)
  have s: "structural_fallback ex_env 0 1 TInt (SetParentContainer ?w 1 None)
           = Some (Inr (Ref TInt 1), snd (New TInt (SetParentContainer ?w 1 None)))"
    by (simp add: structural_fallback_def HasRegistered_def SetParentContainer_def
        Register_def set_value_def ex_world_def zero_default_def New_def Elem_def)
  have hp: "heap (snd (New TInt (SetParentContainer ?w 1 None))) 1 = Conc (VInt 0)"
    by (simp add: New_def SetParentContainer_def Register_def set_value_def ex_world_def)
  show ?thesis
    using h1 h2 h3 s hp
      parent_delegation [OF h1 h2, of ex_env 0 "Direct (Conc (VInt 7))"]
    by simp
qed

section \<open>Pointers and values\<close>

lemma heap_set_value: "heap (set_value w c t b) = heap w"
  by (simp add: set_value_def)

lemma parent_set_value: "c_parent (conts (set_value w c t b) c') = c_parent (conts w c')"
  by (simp add: set_value_def)

text \<open>
  C7, as stated, at a container that has a parent: the child (container 1) registers a
  pointer to a \<open>Foo\<close> holding \<open>abc\<close>; resolving \<open>Foo\<close> on the child goes to the parent
  before the pointer is looked at, and returns a new zero \<open>Foo\<close>, not the dereference of
  the registered pointer.
\<close>

theorem pointer_value_asymmetry_counterexample:
  "map_option fst
     (Make ex_env (Suc (Suc (Suc 0))) 1 ex_Foo (Register ex_world 1 (VPtr ex_Foo (Some 0))))
     = Some (Inr (Some (VStruct ex_Foo [Conc (VString [])])))
   \<and> dyn (heap (Register ex_world 1 (VPtr ex_Foo (Some 0))) 0)
     = Some (VStruct ex_Foo [Conc (VString ''abc'')])"
  by (simp add: Make_def Register_def set_value_def ex_world_def ex_Foo_def NewContainer_def
      zero_default_def New_def Elem_def Interface_def CanSet_def ValueOf_def)

text \<open>
  C7, amended. On a container without a parent, for every struct type \<open>S\<close>: when \<open>S\<close>
  itself has no binding, after registering a non-nil pointer to an \<open>S\<close>, resolving \<open>S\<close>
  returns the content of the variable the pointer points to; and when neither the
  pointer type nor the pointer to it has a binding, after registering a value of type
  \<open>S\<close>, resolving the pointer type returns the nil pointer (the content of a fresh
  variable), because the stored instance is not addressable.
\<close>

theorem pointer_value_asymmetry:
  assumes "c_parent (conts w c) = None" and "S = TStruct nm fs"
  shows "(c_values (conts w c) S = None \<longrightarrow>
            Make E (Suc (Suc n)) c S (Register w c (VPtr S (Some a)))
              = Some (Inr (dyn (heap w a)), Register w c (VPtr S (Some a))))
       \<and> (c_values (conts w c) (TPtr S) = None \<and> c_values (conts w c) (TPtr (TPtr S)) = None \<longrightarrow>
            Make E (Suc (Suc n)) c (TPtr S) (Register w c (VStruct S vs))
              = Some (Inr (Some (VPtr S None)), snd (New (TPtr S) (Register w c (VStruct S vs)))))"
  using assms
  by (simp add: Make_def Register_def values_set_value parent_set_value heap_set_value
      ValueOf_def Elem_def Interface_def zero_default_def New_def)

theorem pointer_value_asymmetry_witness:
  "c_parent (conts ex_world 0) = None
   \<and> c_values (conts ex_world 0) ex_Foo = None
   \<and> c_values (conts ex_world 0) (TPtr ex_Foo) = None
   \<and> c_values (conts ex_world 0) (TPtr (TPtr ex_Foo)) = None
   \<and> Make ex_env (Suc (Suc 0)) 0 ex_Foo (Register ex_world 0 (VPtr ex_Foo (Some 0)))
       = Some (Inr (Some (VStruct ex_Foo [Conc (VString ''abc'')])),
               Register ex_world 0 (VPtr ex_Foo (Some 0)))
   \<and> map_option fst
       (Make ex_env (Suc (Suc 0)) 0 (TPtr ex_Foo)
          (Register ex_world 0 (VStruct ex_Foo [Conc (VString ''abc'')])))
       = Some (Inr (Some (VPtr ex_Foo None)))"
proof -
  have h: "c_parent (conts ex_world 0) = None" "c_values (conts ex_world 0) ex_Foo = None"
    "c_values (conts ex_world 0) (TPtr ex_Foo) = None"
    "c_values (conts ex_world 0) (TPtr (TPtr ex_Foo)) = None"
    by (simp_all add: ex_world_def NewContainer_def)
  have d: "dyn (heap ex_world 0) = Some (VStruct ex_Foo [Conc (VString ''abc'')])"
    by (simp add: ex_world_def)
  show ?thesis
    using h d
      pointer_value_asymmetry [OF h(1) ex_Foo_def, of ex_env 0 0 "[Conc (VString ''abc'')]"]
    by simp
qed

section \<open>Unregistered types\<close>

text \<open>
  C4, at the type \<^verbatim>\<open><-chan int\<close> on a container with no binding and no parent: \<^verbatim>\<open>build\<close>
  reaches \<^verbatim>\<open>reflect.MakeChan(t, 0)\<close>, which panics on a channel type that is not
  bidirectional, so \<^verbatim>\<open>Make\<close> panics instead of returning an empty channel.
\<close>

theorem make_receive_only_channel_panics:
  "Make ex_env (Suc 0) 0 (TChan RecvDir TInt) ex_world
     = Some (Inl (ReflectPanic ''reflect.MakeChan: unidirectional channel type''), ex_world)"
  by (simp add: Make_def ex_world_def NewContainer_def MakeChan_def)

section \<open>Call\<close>

text \<open>
  C9, at the variadic function \<^verbatim>\<open>func(xs ...int)\<close> (function 0) on a container with no
  binding: \<^verbatim>\<open>Call\<close> resolves the one declared parameter, of type \<^verbatim>\<open>[]int\<close>, to an empty
  slice and hands it to \<^verbatim>\<open>reflect.Value.Call\<close>, which takes it for one element of the
  variadic slice and panics because \<^verbatim>\<open>[]int\<close> is not assignable to \<^verbatim>\<open>int\<close>: the function
  is not invoked.
\<close>

theorem call_variadic_panics:
  "Call ex_env (Suc 0) 0 (VFunc [TSlice TInt] [] True (Some 0)) ex_world
     = Some (Inl (ReflectPanic ''reflect: cannot use value as type in Call''), ex_world)"
  by (simp add: Call_def call_loop.simps ex_world_def NewContainer_def MakeSlice_def
      value_Call_def arg_ok_def AssignableTo_def)

section \<open>Resolution and the set of registered types\<close>


















section \<open>Field injection\<close>









lemma deref_type_New:
  "deref_type w (TStruct nm fs) a = Ref (TStruct nm fs) a"
  by simp







section \<open>Call on the declared parameters\<close>

text \<open>
  For every function value, variadic or not, \<^verbatim>\<open>Call\<close> resolves the declared parameter
  types from left to right and hands the values to \<^verbatim>\<open>reflect.Value.Call\<close>; for a function
  that is not variadic and arguments that are assignable to the parameters, that is the
  invocation of the function on them. A value that is not a function is refused.
\<close>

lemma call_loop_resolve_all:
  "i \<le> length ts \<Longrightarrow> length args = length ts \<Longrightarrow>
   call_loop E n c ts i args w =
     (case resolve_all E n c (drop i ts) w of
        None \<Rightarrow> None
      | Some (Inl e, w') \<Rightarrow> Some (Inl e, w')
      | Some (Inr vs, w') \<Rightarrow> Some (Inr (take i args @ vs), w'))"
proof (induction E n c ts i args w rule: call_loop.induct)
  case (1 E n c ts i args w)
  show ?case
  proof (cases "i < length ts")
    case False
    with "1.prems" have "i = length ts" by simp
    with "1.prems" show ?thesis by (simp add: call_loop.simps [of E n c ts "length ts"])
  next
    case True
    then have d: "drop i ts = ts ! i # drop (Suc i) ts" by (simp add: Cons_nth_drop_Suc)
    show ?thesis
    proof (cases "build E n c (ts ! i) w")
      case None
      with True d show ?thesis by (simp add: call_loop.simps [of E n c ts i])
    next
      case (Some b)
      obtain res u where b: "b = (res, u)" by (cases b)
      show ?thesis
      proof (cases res)
        case (Inl e)
        with True d Some b show ?thesis by (simp add: call_loop.simps [of E n c ts i])
      next
        case (Inr v)
        have t: "take (Suc i) (args[i := v]) = take i args @ [v]"
          using True "1.prems" by (simp add: take_Suc_conv_app_nth)
        have "call_loop E n c ts (Suc i) (args[i := v]) u =
           (case resolve_all E n c (drop (Suc i) ts) u of
              None \<Rightarrow> None
            | Some (Inl e, w') \<Rightarrow> Some (Inl e, w')
            | Some (Inr vs, w') \<Rightarrow> Some (Inr (take (Suc i) (args[i := v]) @ vs), w'))"
          using "1.IH" [OF True Some [unfolded b] refl Inr] True "1.prems" by simp
        then show ?thesis
          using True d Some b Inr t
          by (simp add: call_loop.simps [of E n c ts i] split: option.splits prod.splits sum.splits)
      qed
    qed
  qed
qed

lemma call_injects_parameters:
  "typeOf f = TFunc ins outs var \<Longrightarrow>
   Call E n c f w =
     (case resolve_all E n c ins w of
        None \<Rightarrow> None
      | Some (Inl e, w') \<Rightarrow> Some (Inl e, w')
      | Some (Inr args, w') \<Rightarrow>
          (case value_Call E f args w' of
             (Inl e, w'') \<Rightarrow> Some (Inl e, w'')
           | (Inr rs, w'') \<Rightarrow> Some (Inr (map dyn rs), w'')))"
  by (simp add: Call_def call_loop_resolve_all split: option.splits prod.splits sum.splits)

lemma resolve_all_length:
  "resolve_all E n c ts w = Some (Inr vs, w') \<Longrightarrow> length vs = length ts"
  by (induction ts arbitrary: w vs) (auto split: option.splits prod.splits sum.splits)

lemma value_Call_plain:
  "length args = length ins \<Longrightarrow> list_all2 (arg_ok E) args ins \<Longrightarrow>
   value_Call E (VFunc ins outs False (Some g)) args w = funcs E g (map2 (arg_in w) args ins) w"
proof -
  assume l: "length args = length ins" and ok: "list_all2 (arg_ok E) args ins"
  have "Invalid \<notin> set args"
  proof
    assume "Invalid \<in> set args"
    then obtain i where "i < length args" "args ! i = Invalid" by (auto simp: in_set_conv_nth)
    with ok show False by (auto simp: list_all2_conv_all_nth arg_ok_def)
  qed
  then show ?thesis using l ok by (simp add: value_Call_def)
qed

lemma call_not_callable:
  "Kind (typeOf f) \<noteq> KFunc \<Longrightarrow> Call E n c f w = Some (Inl NotCallable, w)"
  by (cases "typeOf f") (simp_all add: Call_def)

section \<open>Resolution on a container without bindings\<close>

text \<open>
  On a container with no binding and no parent, for every type on whose way no channel
  type with a direction lies, \<^verbatim>\<open>build\<close> returns with any fuel above the depth of the
  type: a valid Value of exactly that type, no panic, and no registry changed.
\<close>

lemma conts_Set_field_ok:
  "Type x = Some ft \<Longrightarrow>
   \<exists>w'. Set_field E (Some a) i ft x w = (None, w') \<and> conts w' = conts w"
  by (cases x) (auto simp: Set_field_def AssignableTo_def)

lemma build_unbound_simple:
  "unbound w c \<Longrightarrow> 0 < n \<Longrightarrow> Kind t \<noteq> KStruct \<Longrightarrow> Kind t \<noteq> KPtr \<Longrightarrow> Kind t \<noteq> KChan \<Longrightarrow>
   \<exists>v w'. build E n c t w = Some (Inr v, w') \<and> Type v = Some t \<and> conts w' = conts w"
  by (cases n; cases t)
    (simp_all add: unbound_def zero_default_def New_def Elem_def MakeSlice_def MakeMap_def)

lemma build_unbound_total:
  "defaultable T \<Longrightarrow> depth T < n \<Longrightarrow> unbound w c \<Longrightarrow>
     \<exists>v w'. build E n c T w = Some (Inr v, w') \<and> Type v = Some T \<and> conts w' = conts w"
  "defaultable_fields fs \<Longrightarrow> depth_fields fs \<le> n \<Longrightarrow> unbound w c \<Longrightarrow>
     \<exists>w'. inject_fields E n c (Some a) i fs w = Some (None, w') \<and> conts w' = conts w"
proof (induction T and fs arbitrary: n w and n w i a rule: defaultable_defaultable_fields.induct)
  case (1 d e)
  then obtain m where n: "n = Suc m" by (cases n) auto
  with 1 show ?case by (simp add: unbound_def MakeChan_def)
next
  case (2 e)
  then obtain m where n: "n = Suc m" by (cases n) auto
  from 2 n have "defaultable e" "depth e < m" by simp_all
  from "2.IH" [OF this \<open>unbound w c\<close>] obtain v u where
    b: "build E m c e w = Some (Inr v, u)" "Type v = Some e" "conts u = conts w" by blast
  show ?case
  proof (cases v)
    case (Ref t a')
    with b n \<open>unbound w c\<close> show ?thesis by (simp add: unbound_def)
  next
    case Invalid
    with b show ?thesis by simp
  next
    case (Direct s)
    with b n \<open>unbound w c\<close> show ?thesis
      by (simp add: unbound_def zero_default_def New_def Elem_def)
  qed
next
  case (3 nm fs)
  then obtain m where n: "n = Suc m" by (cases n) auto
  let ?t = "TStruct nm fs"
  obtain x y where nw: "New ?t w = (x, y)" by (cases "New ?t w")
  then have x: "x = Direct (Conc (VPtr ?t (Some (nextaddr w))))" and cy: "conts y = conts w"
    by (auto simp: New_def)
  have uy: "unbound y c" using \<open>unbound w c\<close> cy by (simp add: unbound_def)
  from 3 n have "defaultable_fields fs" "depth_fields fs \<le> m" by simp_all
  from "3.IH" [OF this uy] obtain w' where
    f: "inject_fields E m c (Some (nextaddr w)) 0 fs y = Some (None, w')" "conts w' = conts y"
    by blast
  have i: "inject E m c x y = Some (None, w')" using f x by simp
  have "build E n c ?t w = Some (Elem w' x, w')"
    using n \<open>unbound w c\<close> nw i by (simp add: unbound_def del: inject.simps)
  moreover have "Elem w' x = Inr (Ref ?t (nextaddr w))" using x by (simp add: Elem_def)
  ultimately show ?case using f cy by simp
next
  case 5
  then show ?case by simp
next
  case (6 nm pp t tg an fs)
  let ?tf = "SField nm pp t tg an"
  show ?case
  proof (cases "pp = [] \<and> Tag_Get tg injectTag \<noteq> []")
    case False
    then have "(CanSet (Some a) ?tf \<and> Tag_Get (ftag ?tf) injectTag \<noteq> []) = False"
      by (auto simp: CanSet_def)
    moreover from 6 have "defaultable_fields fs" "depth_fields fs \<le> n" by simp_all
    from "6.IH"(2) [OF this \<open>unbound w c\<close>] obtain w' where
      "inject_fields E n c (Some a) (Suc i) fs w = Some (None, w')" "conts w' = conts w" by blast
    ultimately show ?thesis by (simp only: inject_fields.simps if_False) simp
  next
    case True
    then have sel: "CanSet (Some a) ?tf \<and> Tag_Get (ftag ?tf) injectTag \<noteq> []"
      by (auto simp: CanSet_def)
    from 6 True have "defaultable t" "depth t < n" by simp_all
    from "6.IH"(1) [OF True this \<open>unbound w c\<close>] obtain v u where
      b: "build E n c t w = Some (Inr v, u)" "Type v = Some t" "conts u = conts w" by blast
    from conts_Set_field_ok [OF b(2), of E a i u] obtain u2 where
      s: "Set_field E (Some a) i t v u = (None, u2)" "conts u2 = conts u" by blast
    have uu: "unbound u2 c" using \<open>unbound w c\<close> b(3) s(2) by (simp add: unbound_def)
    from 6 have "defaultable_fields fs" "depth_fields fs \<le> n" by simp_all
    from "6.IH"(2) [OF this uu] obtain w' where
      r: "inject_fields E n c (Some a) (Suc i) fs u2 = Some (None, w')" "conts w' = conts u2"
      by blast
    show ?thesis using sel b s r by simp
  qed
qed (simp_all add: build_unbound_simple)

end
